theory Spec2Isabelle
  imports Main
begin

section \<open>Python values and dictionaries\<close>

text \<open>
  The namespaces handled by \<^verbatim>\<open>ghidra_bridge.py\<close> are Python dictionaries from names to
  objects (\<^verbatim>\<open>locals()\<close>, \<^verbatim>\<open>globals()\<close>). A value is \<^verbatim>\<open>None\<close>, an integer, the float
  \<^verbatim>\<open>nan\<close> (an object known by its identity: it is the one built-in value that \<^verbatim>\<open>==\<close> does
  not find equal to itself), a string, a proxy of a remote object (a \<^verbatim>\<open>BridgedObject\<close>,
  known by its handle) or a dictionary with string keys. Values are finite trees: a
  dictionary that contains itself is not represented. A dictionary keeps its insertion
  order, so it is an association list.
\<close>

datatype pyval =
    PNone
  | PInt int
  | PNaN nat
  | PStr string
  | PProxy nat
  | PDict "(string \<times> pyval) list"

type_synonym pydict = "(string \<times> pyval) list"

text \<open>\<^verbatim>\<open>k in d\<close>\<close>

definition dict_contains :: "pydict \<Rightarrow> string \<Rightarrow> bool" where
  "dict_contains d k = (k \<in> set (map fst d))"

text \<open>\<^verbatim>\<open>d[k]\<close>; \<open>None\<close> stands for the \<^verbatim>\<open>KeyError\<close>.\<close>

definition dict_get :: "pydict \<Rightarrow> string \<Rightarrow> pyval option" where
  "dict_get d k = map_of d k"

text \<open>\<^verbatim>\<open>d[k] = v\<close>: a key already present keeps its place, a new key goes to the end.\<close>

fun dict_set :: "pydict \<Rightarrow> string \<Rightarrow> pyval \<Rightarrow> pydict" where
  "dict_set [] k v = [(k, v)]"
| "dict_set ((k', v') # d) k v =
     (if k' = k then (k, v) # d else (k', v') # dict_set d k v)"

text \<open>\<^verbatim>\<open>del d[k]\<close>, which the code only runs after the test \<^verbatim>\<open>k in d\<close>.\<close>

definition dict_del :: "pydict \<Rightarrow> string \<Rightarrow> pydict" where
  "dict_del d k = filter (\<lambda>kv. fst kv \<noteq> k) d"

text \<open>
  \<^verbatim>\<open>a is b\<close>, where it decides a comparison: the same \<^verbatim>\<open>nan\<close> object on both sides.
\<close>

fun same_nan :: "pyval \<Rightarrow> pyval \<Rightarrow> bool" where
  "same_nan (PNaN i) (PNaN j) = (i = j)"
| "same_nan _ _ = False"

text \<open>
  \<^verbatim>\<open>a == b\<close>. A \<^verbatim>\<open>nan\<close> is equal to nothing, itself included. Two dictionaries are equal
  when they have the same number of keys and every key of the first is a key of the second
  with a value that is the same object or an equal one (the interpreter compares the values
  of a dictionary that way), in whatever order; proxies are compared by handle; values of
  different kinds are different.
\<close>

fun py_eq :: "pyval \<Rightarrow> pyval \<Rightarrow> bool" where
  "py_eq PNone PNone = True"
| "py_eq (PInt i) (PInt j) = (i = j)"
| "py_eq (PStr s) (PStr t) = (s = t)"
| "py_eq (PProxy p) (PProxy q) = (p = q)"
| "py_eq (PDict a) (PDict b) =
     (length a = length b \<and>
      (\<forall>(k, v) \<in> set a.
         case map_of b k of None \<Rightarrow> False | Some w \<Rightarrow> same_nan v w \<or> py_eq v w))"
| "py_eq _ _ = False"

text \<open>A well-formed value: no dictionary in it has a key twice.\<close>

fun wf_val :: "pyval \<Rightarrow> bool" where
  "wf_val (PDict a) = (distinct (map fst a) \<and> (\<forall>(k, v) \<in> set a. wf_val v))"
| "wf_val _ = True"

text \<open>The nesting depth of dictionaries in a value.\<close>

fun depth :: "pyval \<Rightarrow> nat" where
  "depth (PDict a) = Suc (fold max (map (\<lambda>(k, v). depth v) a) 0)"
| "depth _ = 0"

text \<open>\<^verbatim>\<open>s.startswith(p)\<close>\<close>

definition startswith :: "string \<Rightarrow> string \<Rightarrow> bool" where
  "startswith s p = (take (length p) s = p)"


section \<open>Constants of the module\<close>

definition EXCLUDED_REMOTE_IMPORTS :: "string list" where
  "EXCLUDED_REMOTE_IMPORTS =
     [''logging'', ''subprocess'', ''ghidra_bridge'', ''bridge'', ''GhidraBridgeServer'']"

definition GHIDRA_BRIDGE_NAMESPACE_TRACK :: string where
  "GHIDRA_BRIDGE_NAMESPACE_TRACK = ''__ghidra_bridge_namespace_track__''"


section \<open>The remote side, the session and the world around it\<close>

text \<open>
  \<^verbatim>\<open>remote_main = self.bridge.remote_import("__main__")\<close> comes from the transport module
  \<^verbatim>\<open>bridge\<close>, which is not part of this file; what the code uses of it is a parameter:
  the list \<^verbatim>\<open>_bridge_attrs\<close>, the resolution \<^verbatim>\<open>getattr(remote_main, attr)\<close> and the tool
  \<^verbatim>\<open>remote_main.state.getTool()\<close>.
\<close>

record remote_main =
  bridge_attrs :: "string list"
  getattr :: "string \<Rightarrow> pyval"
  state_getTool :: nat

text \<open>
  The exceptions. The code raises plain \<^verbatim>\<open>Exception\<close> objects that differ by their message:
  \<open>NoServerError\<close> is the one of line 36 (no host or port to load from),
  \<open>NoNamespaceError\<close> the one of line 104 (no namespace to unload from) and
  \<open>NotProjectedError\<close> the one of line 114 (the tracking key is not in the namespace).
  The other three are the interpreter's own, for a subscript or an attribute that is not
  there.
\<close>

datatype error =
    NoServerError
  | NoNamespaceError
  | NotProjectedError
  | KeyError string
  | TypeError
  | AttributeError

text \<open>\<^verbatim>\<open>bridge.BridgeClient(connect_to_host=..., connect_to_port=..., loglevel=...)\<close>\<close>

record bridge_client =
  connect_to_host :: "string option"
  connect_to_port :: "nat option"
  loglevel :: "nat option"

text \<open>An \<^verbatim>\<open>InteractiveListener\<close> object: its identity and its two fields.\<close>

record listener =
  ident :: nat
  tool :: nat
  update_list :: "nat list"

text \<open>The calls made on the remote tool: \<open>(tool, listener)\<close>.\<close>

datatype tool_call =
    AddToolListener nat nat
  | RemoveToolListener nat nat

text \<open>
  The world outside the session object: the caller's dictionaries, by address (the session
  and the caller share them), the calls made on remote tools so far, the listeners the
  remote tools hold, as pairs \<open>(tool, listener)\<close>, and the identity of the next object
  created.
\<close>

record world =
  scopes :: "nat \<Rightarrow> pydict"
  tool_calls :: "tool_call list"
  tool_listeners :: "(nat \<times> nat) list"
  next_ident :: nat

text \<open>The fields of a \<^verbatim>\<open>GhidraBridge\<close> object.\<close>

record session =
  bridge :: bridge_client
  interactive_mode :: bool
  interactive_listener :: "listener option"
  namespace :: "nat option"


section \<open>The remote tool\<close>

text \<open>
  Modelled from the spec: \<^verbatim>\<open>tool.addToolListener(listener)\<close>, a call on the remote tool
  through the transport, neither of which is in this file. The spec has the remote event
  source hold the listeners registered with it ("registers it with a remote event source");
  the call is taken to answer.
\<close>

definition addToolListener :: "nat \<Rightarrow> nat \<Rightarrow> world \<Rightarrow> world" where
  "addToolListener t l w =
     w\<lparr>tool_calls := tool_calls w @ [AddToolListener t l],
       tool_listeners := List.insert (t, l) (tool_listeners w)\<rparr>"

text \<open>
  Modelled from the spec: \<^verbatim>\<open>tool.removeToolListener(listener)\<close>, likewise a call on the
  remote tool. The spec has the unregistration "safe to invoke redundantly on an
  already-removed handler", with "no fatal error if called twice": the listener leaves the
  tool's listeners if it is among them, nothing changes if it is not, and the call returns
  in both cases.
\<close>

definition removeToolListener :: "nat \<Rightarrow> nat \<Rightarrow> world \<Rightarrow> (error + unit) \<times> world" where
  "removeToolListener t l w =
     (Inr (), w\<lparr>tool_calls := tool_calls w @ [RemoveToolListener t l],
                tool_listeners := removeAll (t, l) (tool_listeners w)\<rparr>)"


section \<open>InteractiveListener\<close>

text \<open>
  The class of lines 59 to 77. Its class statement derives from a remote type through the
  transport and is taken to go through. \<^verbatim>\<open>__init__\<close> registers the new listener with the
  tool, \<^verbatim>\<open>__del__\<close> removes it from the tool, without a test of any kind, and
  \<^verbatim>\<open>add_to_update_list\<close> appends a namespace.
\<close>

definition InteractiveListener_init :: "nat \<Rightarrow> world \<Rightarrow> listener \<times> world" where
  "InteractiveListener_init t w =
     (let self = \<lparr>ident = next_ident w, tool = t, update_list = []\<rparr>
      in (self, (addToolListener t (ident self) w)\<lparr>next_ident := Suc (next_ident w)\<rparr>))"

definition InteractiveListener_del :: "listener \<Rightarrow> world \<Rightarrow> (error + unit) \<times> world" where
  "InteractiveListener_del self w = removeToolListener (tool self) (ident self) w"

definition add_to_update_list :: "listener \<Rightarrow> nat \<Rightarrow> listener" where
  "add_to_update_list self ns = self\<lparr>update_list := update_list self @ [ns]\<rparr>"


section \<open>get_flat_api\<close>

text \<open>
  The loop of lines 89 to 94 over \<^verbatim>\<open>remote_main._bridge_attrs\<close>. It returns the namespace
  as the loop left it, with the exception that stopped it, if any.
\<close>

fun get_flat_api_loop :: "remote_main \<Rightarrow> string list \<Rightarrow> pydict \<Rightarrow> error option \<times> pydict" where
  "get_flat_api_loop rm [] ns = (None, ns)"
| "get_flat_api_loop rm (attr # attrs) ns =
     (if \<not> startswith attr ''__'' \<and> attr \<notin> set EXCLUDED_REMOTE_IMPORTS then
        (let remote_attr = getattr rm attr;
             ns1 = dict_set ns attr remote_attr
         in case dict_get ns1 GHIDRA_BRIDGE_NAMESPACE_TRACK of
              None \<Rightarrow> (Some (KeyError GHIDRA_BRIDGE_NAMESPACE_TRACK), ns1)
            | Some (PDict t) \<Rightarrow>
                get_flat_api_loop rm attrs
                  (dict_set ns1 GHIDRA_BRIDGE_NAMESPACE_TRACK (PDict (dict_set t attr remote_attr)))
            | Some _ \<Rightarrow> (Some TypeError, ns1))
      else get_flat_api_loop rm attrs ns)"

text \<open>
  \<^verbatim>\<open>get_flat_api(self, namespace=None)\<close>, with the result of \<^verbatim>\<open>remote_import("__main__")\<close>
  as first argument. It returns the outcome, the session and the world.
\<close>

definition get_flat_api ::
  "remote_main \<Rightarrow> nat option \<Rightarrow> session \<Rightarrow> world \<Rightarrow> (error + remote_main) \<times> session \<times> world" where
  "get_flat_api rm namespace_arg self w =
     (let (self1, w1) =
            (if interactive_mode self \<and> interactive_listener self = None then
               (let (l, w') = InteractiveListener_init (state_getTool rm) w
                in (self\<lparr>interactive_listener := Some l\<rparr>, w'))
             else (self, w))
      in case namespace_arg of
           None \<Rightarrow> (Inr rm, self1, w1)
         | Some a \<Rightarrow>
             (case get_flat_api_loop rm (bridge_attrs rm)
                     (dict_set (scopes w1 a) GHIDRA_BRIDGE_NAMESPACE_TRACK (PDict [])) of
                (None, ns) \<Rightarrow> (Inr rm, self1, w1\<lparr>scopes := (scopes w1)(a := ns)\<rparr>)
              | (Some e, ns) \<Rightarrow> (Inl e, self1, w1\<lparr>scopes := (scopes w1)(a := ns)\<rparr>)))"


section \<open>unload_flat_api\<close>

text \<open>The loop of lines 109 to 112 over the items of the tracking dictionary.\<close>

fun unload_flat_api_loop :: "(string \<times> pyval) list \<Rightarrow> pydict \<Rightarrow> pydict" where
  "unload_flat_api_loop [] ns = ns"
| "unload_flat_api_loop ((key, val) # items) ns =
     unload_flat_api_loop items
       (if dict_contains ns key then
          (case dict_get ns key of
             Some cur \<Rightarrow> if py_eq cur val then dict_del ns key else ns
           | None \<Rightarrow> ns)
        else ns)"

text \<open>
  \<^verbatim>\<open>unload_flat_api(self, namespace=None)\<close>. Without an argument the namespace is the one
  the session was constructed with. The items are those of the dictionary under the
  tracking key; anything else there has no \<^verbatim>\<open>items\<close>. The method has no statement that
  deletes the tracking key.
\<close>

definition unload_flat_api :: "nat option \<Rightarrow> session \<Rightarrow> world \<Rightarrow> (error + unit) \<times> world" where
  "unload_flat_api namespace_arg self w =
     (case (case namespace_arg of None \<Rightarrow> namespace self | Some a \<Rightarrow> Some a) of
        None \<Rightarrow> (Inl NoNamespaceError, w)
      | Some a \<Rightarrow>
          (if dict_contains (scopes w a) GHIDRA_BRIDGE_NAMESPACE_TRACK then
             (case dict_get (scopes w a) GHIDRA_BRIDGE_NAMESPACE_TRACK of
                None \<Rightarrow> (Inl (KeyError GHIDRA_BRIDGE_NAMESPACE_TRACK), w)
              | Some (PDict t) \<Rightarrow>
                  (Inr (), w\<lparr>scopes := (scopes w)(a := unload_flat_api_loop t (scopes w a))\<rparr>)
              | Some _ \<Rightarrow> (Inl AttributeError, w))
           else (Inl NotProjectedError, w)))"


section \<open>Construction and the with-block\<close>

text \<open>
  \<^verbatim>\<open>GhidraBridge.__init__\<close>; the last two arguments are what \<^verbatim>\<open>remote_import("__main__")\<close>
  returns when \<^verbatim>\<open>get_flat_api\<close> asks for it, and the world.
\<close>

definition GhidraBridge_init ::
  "string option \<Rightarrow> nat option \<Rightarrow> nat option \<Rightarrow> nat option \<Rightarrow> bool \<Rightarrow> remote_main \<Rightarrow> world
     \<Rightarrow> (error + session) \<times> world" where
  "GhidraBridge_init host port lvl namespace_arg interactive rm w =
     (let self = \<lparr>bridge = \<lparr>connect_to_host = host, connect_to_port = port, loglevel = lvl\<rparr>,
                  interactive_mode = interactive,
                  interactive_listener = None,
                  namespace = None\<rparr>
      in case namespace_arg of
           None \<Rightarrow> (Inr self, w)
         | Some a \<Rightarrow>
             if host = None \<or> port = None then (Inl NoServerError, w)
             else (let self1 = self\<lparr>namespace := Some a\<rparr>
                   in case get_flat_api rm (namespace self1) self1 w of
                        (Inl e, self2, w2) \<Rightarrow> (Inl e, w2)
                      | (Inr r, self2, w2) \<Rightarrow> (Inr self2, w2)))"

text \<open>\<^verbatim>\<open>__enter__\<close> and \<^verbatim>\<open>__exit__\<close>\<close>

definition GhidraBridge_enter :: "session \<Rightarrow> session" where
  "GhidraBridge_enter self = self"

definition GhidraBridge_exit :: "session \<Rightarrow> world \<Rightarrow> (error + unit) \<times> world" where
  "GhidraBridge_exit self w =
     (case namespace self of
        None \<Rightarrow> (Inr (), w)
      | Some a \<Rightarrow> unload_flat_api (Some a) self w)"

section \<open>Vocabulary of the properties\<close>

text \<open>
  The names a load projects: the exposed names that do not start with two underscores and
  are not excluded, in the order and with the repetitions of \<^verbatim>\<open>_bridge_attrs\<close>.
\<close>

definition projected_names :: "remote_main \<Rightarrow> string list" where
  "projected_names rm =
     filter (\<lambda>attr. \<not> startswith attr ''__'' \<and> attr \<notin> set EXCLUDED_REMOTE_IMPORTS)
       (bridge_attrs rm)"

text \<open>A list without the later repetitions of its elements.\<close>

fun first_occurrences :: "string list \<Rightarrow> string list" where
  "first_occurrences [] = []"
| "first_occurrences (x # xs) = x # first_occurrences (removeAll x xs)"

text \<open>The record a load is expected to leave under the tracking key.\<close>

definition projection_record :: "remote_main \<Rightarrow> pydict" where
  "projection_record rm =
     map (\<lambda>n. (n, getattr rm n)) (first_occurrences (projected_names rm))"

text \<open>Assigning the names of a list, one after the other, in a dictionary.\<close>

definition track_of :: "(string \<Rightarrow> pyval) \<Rightarrow> string list \<Rightarrow> pydict \<Rightarrow> pydict" where
  "track_of g names t = fold (\<lambda>n t. dict_set t n (g n)) names t"

text \<open>
  The tool holds the listener: an unregistration of it is effective in such a world, and
  only there.
\<close>

definition registered :: "listener \<Rightarrow> world \<Rightarrow> bool" where
  "registered l w = ((tool l, ident l) \<in> set (tool_listeners w))"

text \<open>The caller's statement \<^verbatim>\<open>S[n] = v\<close> on the dictionary at address \<open>a\<close>.\<close>

definition caller_rebinds :: "nat \<Rightarrow> string \<Rightarrow> pyval \<Rightarrow> world \<Rightarrow> world" where
  "caller_rebinds a n v w = w\<lparr>scopes := (scopes w)(a := dict_set (scopes w a) n v)\<rparr>"


section \<open>A concrete run\<close>

text \<open>
  The remote side exposes \<^verbatim>\<open>foo = 10\<close> and \<^verbatim>\<open>bar = 20\<close>; the caller's dictionary, at
  address 0, is \<^verbatim>\<open>{"x": 1}\<close>.
\<close>

definition example_remote :: remote_main where
  "example_remote =
     \<lparr>bridge_attrs = [''foo'', ''bar''],
      getattr = (\<lambda>n. if n = ''foo'' then PInt 10 else if n = ''bar'' then PInt 20 else PNone),
      state_getTool = 7\<rparr>"

definition example_world :: world where
  "example_world =
     \<lparr>scopes = (\<lambda>a. if a = 0 then [(''x'', PInt 1)] else []),
      tool_calls = [],
      tool_listeners = [],
      next_ident = 0\<rparr>"

definition example_session :: session where
  "example_session =
     \<lparr>bridge = \<lparr>connect_to_host = Some ''127.0.0.1'', connect_to_port = Some 4768,
                loglevel = None\<rparr>,
      interactive_mode = True,
      interactive_listener = None,
      namespace = None\<rparr>"

text \<open>The load of the remote side into the caller's dictionary.\<close>

definition example_loaded :: "(error + remote_main) \<times> session \<times> world" where
  "example_loaded = get_flat_api example_remote (Some 0) example_session example_world"

text \<open>A world whose dictionary at address 0 already binds \<^verbatim>\<open>foo\<close>: \<^verbatim>\<open>{"foo": 5}\<close>.\<close>

definition example_bound_world :: world where
  "example_bound_world =
     \<lparr>scopes = (\<lambda>a. if a = 0 then [(''foo'', PInt 5)] else []),
      tool_calls = [],
      tool_listeners = [],
      next_ident = 0\<rparr>"

text \<open>The same load into the dictionary that already binds \<^verbatim>\<open>foo\<close>.\<close>

definition example_bound_loaded :: "(error + remote_main) \<times> session \<times> world" where
  "example_bound_loaded =
     get_flat_api example_remote (Some 0) example_session example_bound_world"

text \<open>A second load of the same remote side, right after the first.\<close>

definition example_reloaded :: "(error + remote_main) \<times> session \<times> world" where
  "example_reloaded =
     get_flat_api example_remote (Some 0) (fst (snd example_loaded)) (snd (snd example_loaded))"

text \<open>
  The remote side at a later time: it exposes \<^verbatim>\<open>__name__\<close>, \<^verbatim>\<open>bar = 20\<close> and \<^verbatim>\<open>bridge\<close>, and
  no \<^verbatim>\<open>foo\<close> any more.
\<close>

definition example_remote_later :: remote_main where
  "example_remote_later =
     \<lparr>bridge_attrs = [''__name__'', ''bar'', ''bridge''],
      getattr = (\<lambda>n. if n = ''bar'' then PInt 20 else PNone),
      state_getTool = 7\<rparr>"

text \<open>A second load, of the later remote side, right after the first.\<close>

definition example_reloaded_later :: "(error + remote_main) \<times> session \<times> world" where
  "example_reloaded_later =
     get_flat_api example_remote_later (Some 0) (fst (snd example_loaded))
       (snd (snd example_loaded))"

text \<open>A remote side that exposes \<^verbatim>\<open>foo = 10\<close> and a \<^verbatim>\<open>nan\<close>, and its load.\<close>

definition example_remote_nan :: remote_main where
  "example_remote_nan =
     \<lparr>bridge_attrs = [''foo'', ''nan''],
      getattr = (\<lambda>n. if n = ''foo'' then PInt 10 else if n = ''nan'' then PNaN 0 else PNone),
      state_getTool = 7\<rparr>"

definition example_nan_loaded :: "(error + remote_main) \<times> session \<times> world" where
  "example_nan_loaded = get_flat_api example_remote_nan (Some 0) example_session example_world"

text \<open>The listener the first interactive \<^verbatim>\<open>get_flat_api\<close> creates in this world.\<close>

definition example_listener :: listener where
  "example_listener = \<lparr>ident = 0, tool = 7, update_list = []\<rparr>"

text \<open>\<^verbatim>\<open>GhidraBridge(namespace=S)\<close> on the caller's dictionary, and the session it returns.\<close>

definition example_constructed :: "(error + session) \<times> world" where
  "example_constructed =
     GhidraBridge_init (Some ''127.0.0.1'') (Some 4768) None (Some 0) True
       example_remote example_world"

definition example_constructed_session :: session where
  "example_constructed_session =
     \<lparr>bridge = \<lparr>connect_to_host = Some ''127.0.0.1'', connect_to_port = Some 4768,
                loglevel = None\<rparr>,
      interactive_mode = True,
      interactive_listener = Some example_listener,
      namespace = Some 0\<rparr>"


section \<open>Dictionaries\<close>

lemma dict_get_set: "dict_get (dict_set d k v) k' = (if k' = k then Some v else dict_get d k')"
  by (induction d) (auto simp: dict_get_def)

lemma dict_get_del: "dict_get (dict_del d k) k' = (if k' = k then None else dict_get d k')"
  by (induction d) (auto simp: dict_get_def dict_del_def)

lemma dict_contains_get: "dict_contains d k \<longleftrightarrow> dict_get d k \<noteq> None"
  by (simp add: dict_contains_def dict_get_def map_of_eq_None_iff)

lemma keys_dict_set: "fst ` set (dict_set d k v) = insert k (fst ` set d)"
  by (induction d k v rule: dict_set.induct) (simp_all add: insert_commute)

lemma distinct_dict_set: "distinct (map fst d) \<Longrightarrow> distinct (map fst (dict_set d k v))"
  by (induction d k v rule: dict_set.induct) (auto simp: keys_dict_set)

lemma dict_set_absent: "k \<notin> set (map fst d) \<Longrightarrow> dict_set d k v = d @ [(k, v)]"
  by (induction d) auto

lemma dict_set_same: "(k, v) \<in> set d \<Longrightarrow> distinct (map fst d) \<Longrightarrow> dict_set d k v = d"
  by (induction d) (auto simp: rev_image_eqI)

lemma count_key_distinct:
  "distinct (map fst d) \<Longrightarrow> k \<in> fst ` set d \<Longrightarrow> length (filter (\<lambda>kv. fst kv = k) d) = 1"
proof (induction d)
  case Nil
  then show ?case by simp
next
  case (Cons x d)
  show ?case
  proof (cases "fst x = k")
    case True
    with Cons.prems have "k \<notin> fst ` set d" by simp
    then have "\<forall>kv \<in> set d. fst kv \<noteq> k" by force
    then have "filter (\<lambda>kv. fst kv = k) d = []"
      by (simp add: filter_empty_conv)
    with True show ?thesis by simp
  next
    case False
    with Cons show ?thesis by auto
  qed
qed


section \<open>Equality of values\<close>

text \<open>
  Equal values are nested equally deep, so no dictionary is equal to one of its own values;
  a well-formed value is equal to itself.
\<close>

lemma fold_max_ge: "(m::nat) \<le> fold max xs m"
  by (induction xs arbitrary: m) (auto intro: order_trans [OF max.cobounded2])

lemma fold_max_mem: "x \<in> set xs \<Longrightarrow> (x::nat) \<le> fold max xs m"
proof (induction xs arbitrary: m)
  case Nil
  then show ?case by simp
next
  case (Cons y ys)
  then show ?case
    using fold_max_ge [of "max y m" ys] by auto
qed

lemma fold_max_le: "(\<forall>x \<in> set xs. x \<le> n) \<Longrightarrow> m \<le> n \<Longrightarrow> fold max xs m \<le> (n::nat)"
  by (induction xs arbitrary: m) auto

lemma depth_member: "(k, v) \<in> set a \<Longrightarrow> depth v < depth (PDict a)"
proof -
  assume "(k, v) \<in> set a"
  then have "depth v \<in> set (map (\<lambda>(k, v). depth v) a)" by force
  from fold_max_mem [OF this, of 0] show ?thesis by simp
qed

lemma same_nan_depth: "same_nan x y \<Longrightarrow> depth x \<le> depth y"
  by (cases x; cases y) simp_all

lemma py_eq_depth: "py_eq x y \<Longrightarrow> depth x \<le> depth y"
proof (induction x y rule: py_eq.induct)
  case (5 a b)
  have "\<forall>d \<in> set (map (\<lambda>(k, v). depth v) a). d \<le> fold max (map (\<lambda>(k, v). depth v) b) 0"
  proof
    fix d assume "d \<in> set (map (\<lambda>(k, v). depth v) a)"
    then obtain k v where kv: "(k, v) \<in> set a" and d: "d = depth v" by auto
    from "5.prems" kv obtain w where w: "map_of b k = Some w" and e: "same_nan v w \<or> py_eq v w"
      by (auto split: option.splits)
    have "depth v \<le> depth w"
    proof (cases "same_nan v w")
      case True
      then show ?thesis by (rule same_nan_depth)
    next
      case False
      with e have "py_eq v w" by simp
      from "5.IH" [OF kv refl w this] show ?thesis .
    qed
    moreover from w have "(k, w) \<in> set b" by (rule map_of_SomeD)
    then have "depth w \<in> set (map (\<lambda>(k, v). depth v) b)" by force
    then have "depth w \<le> fold max (map (\<lambda>(k, v). depth v) b) 0" by (rule fold_max_mem)
    ultimately show "d \<le> fold max (map (\<lambda>(k, v). depth v) b) 0" using d by simp
  qed
  then show ?case by (simp add: fold_max_le)
qed simp_all

lemma py_eq_not_member: "(k, v) \<in> set t \<Longrightarrow> \<not> py_eq (PDict t) v"
  using py_eq_depth [of "PDict t" v] depth_member [of k v t] by auto

text \<open>Only a \<^verbatim>\<open>nan\<close> is a well-formed value that is not equal to itself.\<close>

lemma same_nan_refl: "same_nan (PNaN i) (PNaN i)"
  by simp

lemma py_eq_nan: "\<not> py_eq (PNaN i) y"
  by simp

lemma py_eq_refl: "wf_val x \<Longrightarrow> \<forall>i. x \<noteq> PNaN i \<Longrightarrow> py_eq x x"
proof (induction x rule: wf_val.induct)
  case (1 a)
  have "case map_of a k of None \<Rightarrow> False | Some w \<Rightarrow> same_nan v w \<or> py_eq v w"
    if kv: "(k, v) \<in> set a" for k v
  proof -
    from "1.prems" kv have m: "map_of a k = Some v" by simp
    from "1.prems" kv have wf: "wf_val v" by auto
    have "same_nan v v \<or> py_eq v v"
    proof (cases "\<exists>i. v = PNaN i")
      case True
      then show ?thesis by auto
    next
      case False
      with "1.IH" [OF kv refl wf] show ?thesis by simp
    qed
    with m show ?thesis by simp
  qed
  then show ?case by auto
qed simp_all


section \<open>The loops\<close>

lemma unload_flat_api_loop_get:
  "dict_get (unload_flat_api_loop items ns) k =
     (if \<exists>v c. (k, v) \<in> set items \<and> dict_get ns k = Some c \<and> py_eq c v then None
      else dict_get ns k)"
proof (induction items arbitrary: ns)
  case Nil
  then show ?case by simp
next
  case (Cons kv items)
  obtain key val where kv: "kv = (key, val)" by (cases kv)
  show ?case
    unfolding kv unload_flat_api_loop.simps Cons.IH
    by (auto simp: dict_get_del dict_contains_get split: option.splits)
qed

lemma unload_flat_api_loop_track:
  assumes "dict_get ns GHIDRA_BRIDGE_NAMESPACE_TRACK = Some (PDict t)"
  shows "dict_get (unload_flat_api_loop t ns) GHIDRA_BRIDGE_NAMESPACE_TRACK = Some (PDict t)"
  using assms by (auto simp: unload_flat_api_loop_get py_eq_not_member)

lemma track_startswith: "startswith GHIDRA_BRIDGE_NAMESPACE_TRACK ''__''"
  by (simp add: startswith_def GHIDRA_BRIDGE_NAMESPACE_TRACK_def)

lemma get_flat_api_loop_inv:
  assumes "dict_get ns GHIDRA_BRIDGE_NAMESPACE_TRACK = Some (PDict t)"
  shows "\<exists>ns'. get_flat_api_loop rm attrs ns = (None, ns') \<and>
           dict_get ns' GHIDRA_BRIDGE_NAMESPACE_TRACK =
             Some (PDict (track_of (getattr rm)
               (filter (\<lambda>attr. \<not> startswith attr ''__'' \<and> attr \<notin> set EXCLUDED_REMOTE_IMPORTS) attrs) t)) \<and>
           (\<forall>k. k \<noteq> GHIDRA_BRIDGE_NAMESPACE_TRACK \<longrightarrow>
              dict_get ns' k =
                (if k \<in> set attrs \<and> \<not> startswith k ''__'' \<and> k \<notin> set EXCLUDED_REMOTE_IMPORTS
                 then Some (getattr rm k) else dict_get ns k)) \<and>
           (distinct (map fst ns) \<longrightarrow> distinct (map fst ns'))"
  using assms
proof (induction attrs arbitrary: ns t)
  case Nil
  then show ?case by (simp add: track_of_def)
next
  case (Cons attr attrs)
  show ?case
  proof (cases "\<not> startswith attr ''__'' \<and> attr \<notin> set EXCLUDED_REMOTE_IMPORTS")
    case False
    from Cons.IH [OF Cons.prems] False show ?thesis
      by (auto simp: track_of_def)
  next
    case True
    then have ne: "attr \<noteq> GHIDRA_BRIDGE_NAMESPACE_TRACK" using track_startswith by auto
    let ?v = "getattr rm attr"
    let ?ns1 = "dict_set ns attr ?v"
    let ?ns2 = "dict_set ?ns1 GHIDRA_BRIDGE_NAMESPACE_TRACK (PDict (dict_set t attr ?v))"
    have g1: "dict_get ?ns1 GHIDRA_BRIDGE_NAMESPACE_TRACK = Some (PDict t)"
      using Cons.prems ne by (simp add: dict_get_set)
    have g2: "dict_get ?ns2 GHIDRA_BRIDGE_NAMESPACE_TRACK = Some (PDict (dict_set t attr ?v))"
      by (simp add: dict_get_set)
    have step: "get_flat_api_loop rm (attr # attrs) ns = get_flat_api_loop rm attrs ?ns2"
      using True g1 by (simp add: Let_def)
    from Cons.IH [OF g2] obtain ns' where
      r: "get_flat_api_loop rm attrs ?ns2 = (None, ns')" and
      t: "dict_get ns' GHIDRA_BRIDGE_NAMESPACE_TRACK =
             Some (PDict (track_of (getattr rm)
               (filter (\<lambda>attr. \<not> startswith attr ''__'' \<and> attr \<notin> set EXCLUDED_REMOTE_IMPORTS) attrs)
               (dict_set t attr ?v)))" and
      f: "\<forall>k. k \<noteq> GHIDRA_BRIDGE_NAMESPACE_TRACK \<longrightarrow>
              dict_get ns' k =
                (if k \<in> set attrs \<and> \<not> startswith k ''__'' \<and> k \<notin> set EXCLUDED_REMOTE_IMPORTS
                 then Some (getattr rm k) else dict_get ?ns2 k)" and
      d: "distinct (map fst ?ns2) \<longrightarrow> distinct (map fst ns')"
      by blast
    have "get_flat_api_loop rm (attr # attrs) ns = (None, ns')" using step r by simp
    moreover have "dict_get ns' GHIDRA_BRIDGE_NAMESPACE_TRACK =
             Some (PDict (track_of (getattr rm)
               (filter (\<lambda>attr. \<not> startswith attr ''__'' \<and> attr \<notin> set EXCLUDED_REMOTE_IMPORTS) (attr # attrs)) t))"
      using t True by (simp add: track_of_def)
    moreover have "\<forall>k. k \<noteq> GHIDRA_BRIDGE_NAMESPACE_TRACK \<longrightarrow>
              dict_get ns' k =
                (if k \<in> set (attr # attrs) \<and> \<not> startswith k ''__'' \<and> k \<notin> set EXCLUDED_REMOTE_IMPORTS
                 then Some (getattr rm k) else dict_get ns k)"
      using f True by (auto simp: dict_get_set)
    moreover have "distinct (map fst ns) \<longrightarrow> distinct (map fst ns')"
      using d by (simp add: distinct_dict_set)
    ultimately show ?thesis by blast
  qed
qed

lemma track_of_first_occurrences_gen:
  "distinct ys \<Longrightarrow>
   track_of g xs (map (\<lambda>n. (n, g n)) ys) =
     map (\<lambda>n. (n, g n)) (ys @ first_occurrences (filter (\<lambda>n. n \<notin> set ys) xs))"
proof (induction xs arbitrary: ys)
  case Nil
  then show ?case by (simp add: track_of_def)
next
  case (Cons x xs)
  show ?case
  proof (cases "x \<in> set ys")
    case True
    then have "dict_set (map (\<lambda>n. (n, g n)) ys) x (g x) = map (\<lambda>n. (n, g n)) ys"
      using Cons.prems by (intro dict_set_same) (auto simp: comp_def)
    then show ?thesis using Cons.IH [OF Cons.prems] True by (simp add: track_of_def)
  next
    case False
    then have "dict_set (map (\<lambda>n. (n, g n)) ys) x (g x) = map (\<lambda>n. (n, g n)) (ys @ [x])"
      by (simp add: dict_set_absent comp_def)
    moreover have "distinct (ys @ [x])" using False Cons.prems by simp
    moreover have "filter (\<lambda>n. n \<notin> set (ys @ [x])) xs = removeAll x (filter (\<lambda>n. n \<notin> set ys) xs)"
      by (induction xs) auto
    ultimately show ?thesis using Cons.IH [of "ys @ [x]"] False by (simp add: track_of_def)
  qed
qed

lemma track_of_first_occurrences:
  "track_of g xs [] = map (\<lambda>n. (n, g n)) (first_occurrences xs)"
  using track_of_first_occurrences_gen [of "[]" g xs] by simp

lemma set_first_occurrences: "set (first_occurrences xs) = set xs"
  by (induction xs rule: first_occurrences.induct) auto

text \<open>Where no name is exposed twice, the record follows the projected names as they are.\<close>

lemma first_occurrences_distinct: "distinct xs \<Longrightarrow> first_occurrences xs = xs"
  by (induction xs) auto


section \<open>The methods\<close>

lemma projected_not_track: "GHIDRA_BRIDGE_NAMESPACE_TRACK \<notin> set (projected_names rm)"
  using track_startswith by (simp add: projected_names_def)

lemma get_flat_api_scope:
  assumes "get_flat_api rm (Some a) self w = (r, self', w')"
  shows "r = Inr rm \<and>
         dict_get (scopes w' a) GHIDRA_BRIDGE_NAMESPACE_TRACK = Some (PDict (projection_record rm)) \<and>
         (\<forall>k. k \<noteq> GHIDRA_BRIDGE_NAMESPACE_TRACK \<longrightarrow>
            dict_get (scopes w' a) k =
              (if k \<in> set (projected_names rm) then Some (getattr rm k) else dict_get (scopes w a) k)) \<and>
         (distinct (map fst (scopes w a)) \<longrightarrow> distinct (map fst (scopes w' a))) \<and>
         (\<forall>b. b \<noteq> a \<longrightarrow> scopes w' b = scopes w b)"
proof -
  let ?ns0 = "dict_set (scopes w a) GHIDRA_BRIDGE_NAMESPACE_TRACK (PDict [])"
  have "dict_get ?ns0 GHIDRA_BRIDGE_NAMESPACE_TRACK = Some (PDict [])"
    by (simp add: dict_get_set)
  from get_flat_api_loop_inv [OF this, of rm "bridge_attrs rm"] obtain ns' where
    l: "get_flat_api_loop rm (bridge_attrs rm) ?ns0 = (None, ns')" and
    t: "dict_get ns' GHIDRA_BRIDGE_NAMESPACE_TRACK =
          Some (PDict (track_of (getattr rm) (projected_names rm) []))" and
    f: "\<forall>k. k \<noteq> GHIDRA_BRIDGE_NAMESPACE_TRACK \<longrightarrow>
          dict_get ns' k =
            (if k \<in> set (bridge_attrs rm) \<and> \<not> startswith k ''__'' \<and> k \<notin> set EXCLUDED_REMOTE_IMPORTS
             then Some (getattr rm k) else dict_get ?ns0 k)" and
    d: "distinct (map fst ?ns0) \<longrightarrow> distinct (map fst ns')"
    unfolding projected_names_def by blast
  have w': "r = Inr rm \<and> scopes w' = (scopes w)(a := ns')"
    using assms l
    by (auto simp: get_flat_api_def InteractiveListener_init_def addToolListener_def Let_def
        split: if_splits)
  have "\<forall>k. k \<noteq> GHIDRA_BRIDGE_NAMESPACE_TRACK \<longrightarrow>
            dict_get ns' k =
              (if k \<in> set (projected_names rm) then Some (getattr rm k) else dict_get (scopes w a) k)"
    using f by (auto simp: projected_names_def dict_get_set)
  moreover have "dict_get ns' GHIDRA_BRIDGE_NAMESPACE_TRACK = Some (PDict (projection_record rm))"
    using t by (simp add: track_of_first_occurrences projection_record_def)
  moreover have "distinct (map fst (scopes w a)) \<longrightarrow> distinct (map fst ns')"
    using d by (simp add: distinct_dict_set)
  ultimately show ?thesis using w' by simp
qed

lemma get_flat_api_session:
  assumes "get_flat_api rm namespace_arg self w = (r, self', w')"
  shows "bridge self' = bridge self \<and> interactive_mode self' = interactive_mode self \<and>
         namespace self' = namespace self \<and>
         (if interactive_mode self \<and> interactive_listener self = None
          then interactive_listener self' =
                 Some \<lparr>ident = next_ident w, tool = state_getTool rm, update_list = []\<rparr> \<and>
               tool_calls w' = tool_calls w @ [AddToolListener (state_getTool rm) (next_ident w)] \<and>
               tool_listeners w' = List.insert (state_getTool rm, next_ident w) (tool_listeners w)
          else interactive_listener self' = interactive_listener self \<and>
               tool_calls w' = tool_calls w \<and> tool_listeners w' = tool_listeners w)"
  using assms
  by (cases namespace_arg)
     (auto simp: get_flat_api_def InteractiveListener_init_def addToolListener_def Let_def
           split: if_splits prod.splits option.splits)

lemma unload_flat_api_scope:
  assumes "dict_get (scopes w a) GHIDRA_BRIDGE_NAMESPACE_TRACK = Some (PDict t)"
  shows "unload_flat_api (Some a) self w =
           (Inr (), w\<lparr>scopes := (scopes w)(a := unload_flat_api_loop t (scopes w a))\<rparr>)"
  using assms by (simp add: unload_flat_api_def dict_contains_get)

lemma unload_flat_api_returned:
  assumes "unload_flat_api (Some a) self w = (Inr (), w')"
  shows "\<exists>t. dict_get (scopes w a) GHIDRA_BRIDGE_NAMESPACE_TRACK = Some (PDict t) \<and>
             dict_get (scopes w' a) GHIDRA_BRIDGE_NAMESPACE_TRACK = Some (PDict t)"
  using assms
  by (auto simp: unload_flat_api_def unload_flat_api_loop_track
           split: if_splits option.splits pyval.splits)

lemma unload_flat_api_after_record:
  assumes "dict_get (scopes w a) GHIDRA_BRIDGE_NAMESPACE_TRACK = Some (PDict (projection_record rm))"
    and "unload_flat_api (Some a) self w = (r, w')"
  shows "r = Inr () \<and>
         (\<forall>k. dict_get (scopes w' a) k =
            (if k \<in> set (projected_names rm) \<and>
                (\<exists>c. dict_get (scopes w a) k = Some c \<and> py_eq c (getattr rm k))
             then None else dict_get (scopes w a) k))"
proof -
  have m: "(k, v) \<in> set (projection_record rm) \<longleftrightarrow> k \<in> set (projected_names rm) \<and> v = getattr rm k"
    for k v
    by (auto simp: projection_record_def set_first_occurrences)
  from assms have "r = Inr ()" and
    "scopes w' a = unload_flat_api_loop (projection_record rm) (scopes w a)"
    by (auto simp: unload_flat_api_scope)
  then show ?thesis by (auto simp: unload_flat_api_loop_get m)
qed

lemma load_unload_scope:
  assumes "get_flat_api rm (Some a) self w = (r, self1, w1)"
    and "unload_flat_api (Some a) self1 w1 = (r', w2)"
  shows "r' = Inr () \<and>
         (\<forall>n \<in> set (projected_names rm).
            dict_get (scopes w2 a) n =
              (if py_eq (getattr rm n) (getattr rm n) then None else Some (getattr rm n)))"
proof -
  note s = get_flat_api_scope [OF assms(1)]
  then have "dict_get (scopes w1 a) GHIDRA_BRIDGE_NAMESPACE_TRACK = Some (PDict (projection_record rm))"
    by simp
  note u = unload_flat_api_after_record [OF this assms(2)]
  have "dict_get (scopes w2 a) n =
          (if py_eq (getattr rm n) (getattr rm n) then None else Some (getattr rm n))"
    if n: "n \<in> set (projected_names rm)" for n
  proof -
    from n have "n \<noteq> GHIDRA_BRIDGE_NAMESPACE_TRACK" using projected_not_track [of rm] by auto
    with s n have "dict_get (scopes w1 a) n = Some (getattr rm n)" by simp
    with u n show ?thesis by simp
  qed
  with u show ?thesis by simp
qed

lemma GhidraBridge_init_namespace:
  assumes "GhidraBridge_init host port lvl (Some a) interactive rm w0 = (Inr self, w1)"
  shows "namespace self = Some a"
proof -
  let ?self1 = "\<lparr>bridge = \<lparr>connect_to_host = host, connect_to_port = port, loglevel = lvl\<rparr>,
            interactive_mode = interactive, interactive_listener = None, namespace = Some a\<rparr>"
  obtain r self' w' where g: "get_flat_api rm (Some a) ?self1 w0 = (r, self', w')"
    by (cases "get_flat_api rm (Some a) ?self1 w0") auto
  from get_flat_api_session [OF g] have "namespace self' = Some a" by simp
  moreover from assms g have "self = self'"
    by (auto simp: GhidraBridge_init_def split: if_splits sum.splits)
  ultimately show ?thesis by simp
qed


section \<open>The concrete run, unfolded\<close>

lemmas example_defs =
  example_loaded_def example_remote_def example_world_def example_session_def
  example_bound_world_def caller_rebinds_def projected_names_def projection_record_def
  get_flat_api_def unload_flat_api_def GhidraBridge_init_def GhidraBridge_exit_def
  InteractiveListener_init_def InteractiveListener_del_def
  addToolListener_def removeToolListener_def registered_def
  dict_get_def dict_contains_def dict_del_def startswith_def
  EXCLUDED_REMOTE_IMPORTS_def GHIDRA_BRIDGE_NAMESPACE_TRACK_def Let_def
  example_bound_loaded_def example_remote_later_def example_reloaded_def
  example_reloaded_later_def example_listener_def example_constructed_def
  example_constructed_session_def example_remote_nan_def example_nan_loaded_def


section \<open>The claims\<close>

subsection \<open>C1\<close>

text \<open>
  Claim C1. After a load, if the caller rebinds a projected name \<open>n\<close> to a value \<open>v\<close> that is
  not equal to the recorded one, \<^verbatim>\<open>unload_flat_api\<close> returns, \<open>n\<close> is still bound to \<open>v\<close>, and
  the names removed are exactly the projected names whose current value equals the recorded
  value; every other binding is as it was.
\<close>

theorem unload_flat_api_keeps_rebound_name:
  assumes "get_flat_api rm (Some a) self w = (r, self1, w1)"
    and "n \<in> set (projected_names rm)"
    and "\<not> py_eq v (getattr rm n)"
    and "unload_flat_api (Some a) self1 (caller_rebinds a n v w1) = (r', w3)"
  shows "r' = Inr () \<and>
         dict_get (scopes w3 a) n = Some v \<and>
         (\<forall>k. dict_get (scopes w3 a) k =
            (if k \<in> set (projected_names rm) \<and>
                (\<exists>c. dict_get (scopes (caller_rebinds a n v w1) a) k = Some c \<and>
                     py_eq c (getattr rm k))
             then None else dict_get (scopes (caller_rebinds a n v w1) a) k))"
proof -
  let ?w2 = "caller_rebinds a n v w1"
  from assms(2) have ne: "n \<noteq> GHIDRA_BRIDGE_NAMESPACE_TRACK"
    using projected_not_track [of rm] by auto
  have g: "dict_get (scopes ?w2 a) k = (if k = n then Some v else dict_get (scopes w1 a) k)" for k
    by (simp add: caller_rebinds_def dict_get_set)
  have "dict_get (scopes ?w2 a) GHIDRA_BRIDGE_NAMESPACE_TRACK = Some (PDict (projection_record rm))"
    using get_flat_api_scope [OF assms(1)] ne by (simp add: g)
  note u = unload_flat_api_after_record [OF this assms(4)]
  moreover from u assms(3) have "dict_get (scopes w3 a) n = Some v" by (simp add: g)
  ultimately show ?thesis by blast
qed

text \<open>The theorem at the concrete run.\<close>

theorem unload_flat_api_keeps_rebound_name_witness:
  "''foo'' \<in> set (projected_names example_remote) \<and>
   \<not> py_eq (PInt 99) (getattr example_remote ''foo'') \<and>
   fst (unload_flat_api (Some 0) (fst (snd example_loaded))
         (caller_rebinds 0 ''foo'' (PInt 99) (snd (snd example_loaded)))) = Inr () \<and>
   dict_get (scopes (snd (unload_flat_api (Some 0) (fst (snd example_loaded))
         (caller_rebinds 0 ''foo'' (PInt 99) (snd (snd example_loaded))))) 0) ''foo'' =
     Some (PInt 99) \<and>
   dict_get (scopes (snd (unload_flat_api (Some 0) (fst (snd example_loaded))
         (caller_rebinds 0 ''foo'' (PInt 99) (snd (snd example_loaded))))) 0) ''bar'' = None"
proof -
  let ?U = "unload_flat_api (Some 0) (fst (snd example_loaded))
         (caller_rebinds 0 ''foo'' (PInt 99) (snd (snd example_loaded)))"
  have h: "get_flat_api example_remote (Some 0) example_session example_world =
             (fst example_loaded, fst (snd example_loaded), snd (snd example_loaded))"
    by (simp add: example_loaded_def)
  have n: "''foo'' \<in> set (projected_names example_remote)"
    by (simp add: example_defs)
  have p: "\<not> py_eq (PInt 99) (getattr example_remote ''foo'')"
    by (simp add: example_remote_def)
  have u: "?U = (fst ?U, snd ?U)" by simp
  note r = unload_flat_api_keeps_rebound_name [OF h n p u]
  from r have a: "fst ?U = Inr ()" by (rule conjunct1)
  from r have b: "dict_get (scopes (snd ?U) 0) ''foo'' = Some (PInt 99)" by blast
  have c: "dict_get (scopes (snd ?U) 0) ''bar'' = None"
    by (simp add: example_defs)
  from n p a b c show ?thesis by simp
qed

subsection \<open>C2\<close>

text \<open>
  Claim C2 as stated fails where the namespace binds a projected name before the load: from
  \<^verbatim>\<open>{"foo": 5}\<close>, the load binds \<^verbatim>\<open>foo\<close> to 10 and the unload deletes it; \<^verbatim>\<open>foo\<close> is then
  unbound, not bound to 5.
\<close>

theorem load_unload_restores_counterexample:
  "''foo'' \<in> set (projected_names example_remote) \<and>
   dict_get (scopes example_bound_world 0) ''foo'' = Some (PInt 5) \<and>
   fst (unload_flat_api (Some 0) (fst (snd example_bound_loaded))
         (snd (snd example_bound_loaded))) = Inr () \<and>
   dict_get (scopes (snd (unload_flat_api (Some 0) (fst (snd example_bound_loaded))
         (snd (snd example_bound_loaded)))) 0) ''foo'' = None \<and>
   dict_get (scopes (snd (unload_flat_api (Some 0) (fst (snd example_bound_loaded))
         (snd (snd example_bound_loaded)))) 0) ''foo'' \<noteq>
     dict_get (scopes example_bound_world 0) ''foo''"
  by (simp add: example_defs)

text \<open>
  Claim C2, as the code has it. A load followed by an unload, with nothing in between,
  leaves every projected name unbound whose resolved value is equal to itself under
  \<^verbatim>\<open>==\<close>, and leaves a projected name whose value is not equal to itself (a \<^verbatim>\<open>nan\<close>)
  bound to that value. Unbound is the state before the load for the names the namespace did
  not bind before; a binding that the load overwrote is not restored.
\<close>

theorem load_unload_removes_projected_names:
  assumes "get_flat_api rm (Some a) self w = (r, self1, w1)"
    and "unload_flat_api (Some a) self1 w1 = (r', w2)"
  shows "r' = Inr () \<and>
         (\<forall>n \<in> set (projected_names rm).
            dict_get (scopes w2 a) n =
              (if py_eq (getattr rm n) (getattr rm n) then None else Some (getattr rm n))) \<and>
         (\<forall>n \<in> set (projected_names rm).
            py_eq (getattr rm n) (getattr rm n) \<and> dict_get (scopes w a) n = None \<longrightarrow>
            dict_get (scopes w2 a) n = dict_get (scopes w a) n)"
  using load_unload_scope [OF assms] by simp

text \<open>The theorem at a concrete run, with a \<^verbatim>\<open>nan\<close> among the exposed values.\<close>

theorem load_unload_removes_projected_names_witness:
  "py_eq (getattr example_remote_nan ''foo'') (getattr example_remote_nan ''foo'') \<and>
   \<not> py_eq (getattr example_remote_nan ''nan'') (getattr example_remote_nan ''nan'') \<and>
   dict_get (scopes example_world 0) ''foo'' = None \<and>
   fst (unload_flat_api (Some 0) (fst (snd example_nan_loaded)) (snd (snd example_nan_loaded))) =
     Inr () \<and>
   dict_get (scopes (snd (unload_flat_api (Some 0) (fst (snd example_nan_loaded))
         (snd (snd example_nan_loaded)))) 0) ''foo'' = None \<and>
   dict_get (scopes (snd (unload_flat_api (Some 0) (fst (snd example_nan_loaded))
         (snd (snd example_nan_loaded)))) 0) ''nan'' = Some (PNaN 0)"
proof -
  let ?U = "unload_flat_api (Some 0) (fst (snd example_nan_loaded)) (snd (snd example_nan_loaded))"
  have h: "get_flat_api example_remote_nan (Some 0) example_session example_world =
             (fst example_nan_loaded, fst (snd example_nan_loaded), snd (snd example_nan_loaded))"
    by (simp add: example_nan_loaded_def)
  have n: "projected_names example_remote_nan = [''foo'', ''nan'']"
    by (simp add: example_defs)
  have g: "getattr example_remote_nan ''foo'' = PInt 10" "getattr example_remote_nan ''nan'' = PNaN 0"
    by (simp_all add: example_remote_nan_def)
  have u: "?U = (fst ?U, snd ?U)" by simp
  have x: "dict_get (scopes example_world 0) ''foo'' = None"
    by (simp add: example_world_def dict_get_def)
  from load_unload_removes_projected_names [OF h u] x show ?thesis
    by (simp add: n g)
qed

subsection \<open>C3\<close>

text \<open>
  Claim C3 as stated fails: from \<^verbatim>\<open>{"x": 1}\<close>, after the load and the caller's
  \<^verbatim>\<open>S["foo"] = 99\<close>, the unload leaves \<^verbatim>\<open>x\<close>, the tracking key with its record, and \<^verbatim>\<open>foo\<close>
  at 99; the tracking key is still in the namespace.
\<close>

theorem unload_flat_api_removes_track_counterexample:
  "dict_contains (scopes (snd (snd example_loaded)) 0) GHIDRA_BRIDGE_NAMESPACE_TRACK \<and>
   fst (unload_flat_api (Some 0) (fst (snd example_loaded))
         (caller_rebinds 0 ''foo'' (PInt 99) (snd (snd example_loaded)))) = Inr () \<and>
   scopes (snd (unload_flat_api (Some 0) (fst (snd example_loaded))
         (caller_rebinds 0 ''foo'' (PInt 99) (snd (snd example_loaded))))) 0 =
     [(''x'', PInt 1),
      (GHIDRA_BRIDGE_NAMESPACE_TRACK, PDict [(''foo'', PInt 10), (''bar'', PInt 20)]),
      (''foo'', PInt 99)] \<and>
   dict_contains (scopes (snd (unload_flat_api (Some 0) (fst (snd example_loaded))
         (caller_rebinds 0 ''foo'' (PInt 99) (snd (snd example_loaded))))) 0)
     GHIDRA_BRIDGE_NAMESPACE_TRACK"
  by (simp add: example_defs)

text \<open>
  Claim C3, as the code has it. On a namespace whose tracking key holds a record,
  \<^verbatim>\<open>unload_flat_api\<close> returns and the tracking key still holds the same record: the code
  never deletes it.
\<close>

theorem unload_flat_api_keeps_track:
  assumes "dict_get (scopes w a) GHIDRA_BRIDGE_NAMESPACE_TRACK = Some (PDict t)"
  shows "fst (unload_flat_api (Some a) self w) = Inr () \<and>
         dict_get (scopes (snd (unload_flat_api (Some a) self w)) a) GHIDRA_BRIDGE_NAMESPACE_TRACK =
           Some (PDict t)"
  using assms by (simp add: unload_flat_api_scope unload_flat_api_loop_track)

text \<open>The theorem at the concrete run.\<close>

theorem unload_flat_api_keeps_track_witness:
  "dict_get (scopes (snd (snd example_loaded)) 0) GHIDRA_BRIDGE_NAMESPACE_TRACK =
     Some (PDict [(''foo'', PInt 10), (''bar'', PInt 20)]) \<and>
   fst (unload_flat_api (Some 0) (fst (snd example_loaded)) (snd (snd example_loaded))) = Inr () \<and>
   dict_get (scopes (snd (unload_flat_api (Some 0) (fst (snd example_loaded))
       (snd (snd example_loaded)))) 0) GHIDRA_BRIDGE_NAMESPACE_TRACK =
     Some (PDict [(''foo'', PInt 10), (''bar'', PInt 20)])"
proof -
  have t: "dict_get (scopes (snd (snd example_loaded)) 0) GHIDRA_BRIDGE_NAMESPACE_TRACK =
     Some (PDict [(''foo'', PInt 10), (''bar'', PInt 20)])"
    by (simp add: example_defs)
  from unload_flat_api_keeps_track [OF t] t show ?thesis by simp
qed

subsection \<open>C4\<close>

text \<open>
  Claim C4. \<^verbatim>\<open>get_flat_api\<close> with a namespace returns the remote module (the transport is
  taken to answer), and after it every exposed name that does not start with two
  underscores and is not in \<^verbatim>\<open>EXCLUDED_REMOTE_IMPORTS\<close> is bound in the namespace to its
  resolved value, and the tracking key holds exactly these bindings, in the order of the
  exposed names (a name exposed twice stays at its first place).
\<close>

theorem get_flat_api_binds_and_records:
  assumes "get_flat_api rm (Some a) self w = (r, self', w')"
  shows "r = Inr rm \<and>
         (\<forall>n \<in> set (projected_names rm). dict_get (scopes w' a) n = Some (getattr rm n)) \<and>
         dict_get (scopes w' a) GHIDRA_BRIDGE_NAMESPACE_TRACK =
           Some (PDict (map (\<lambda>n. (n, getattr rm n)) (first_occurrences (projected_names rm))))"
proof -
  note s = get_flat_api_scope [OF assms]
  have "dict_get (scopes w' a) n = Some (getattr rm n)" if n: "n \<in> set (projected_names rm)" for n
  proof -
    from n have "n \<noteq> GHIDRA_BRIDGE_NAMESPACE_TRACK" using projected_not_track [of rm] by auto
    with s n show ?thesis by simp
  qed
  with s show ?thesis by (simp add: projection_record_def)
qed

text \<open>The theorem at the concrete run.\<close>

theorem get_flat_api_binds_and_records_witness:
  "fst example_loaded = Inr example_remote \<and>
   dict_get (scopes (snd (snd example_loaded)) 0) ''foo'' = Some (PInt 10) \<and>
   dict_get (scopes (snd (snd example_loaded)) 0) ''bar'' = Some (PInt 20) \<and>
   dict_get (scopes (snd (snd example_loaded)) 0) GHIDRA_BRIDGE_NAMESPACE_TRACK =
     Some (PDict [(''foo'', PInt 10), (''bar'', PInt 20)])"
proof -
  have h: "get_flat_api example_remote (Some 0) example_session example_world =
             (fst example_loaded, fst (snd example_loaded), snd (snd example_loaded))"
    by (simp add: example_loaded_def)
  have n: "projected_names example_remote = [''foo'', ''bar'']"
    by (simp add: example_defs)
  have g: "getattr example_remote ''foo'' = PInt 10" "getattr example_remote ''bar'' = PInt 20"
    by (simp_all add: example_remote_def)
  from get_flat_api_binds_and_records [OF h] show ?thesis
    by (simp add: n g)
qed

subsection \<open>C5\<close>

text \<open>
  Claim C5. On a namespace without the tracking key, given as argument or taken from the
  session, \<^verbatim>\<open>unload_flat_api\<close> raises the exception of line 114 and the world, hence the
  namespace, is as before.
\<close>

theorem unload_flat_api_not_projected:
  assumes "namespace_arg = Some a \<or> (namespace_arg = None \<and> namespace self = Some a)"
    and "\<not> dict_contains (scopes w a) GHIDRA_BRIDGE_NAMESPACE_TRACK"
  shows "unload_flat_api namespace_arg self w = (Inl NotProjectedError, w)"
  using assms by (auto simp: unload_flat_api_def)

text \<open>The theorem at the concrete run.\<close>

theorem unload_flat_api_not_projected_witness:
  "\<not> dict_contains (scopes example_world 0) GHIDRA_BRIDGE_NAMESPACE_TRACK \<and>
   unload_flat_api (Some 0) example_session example_world = (Inl NotProjectedError, example_world)"
proof -
  have c: "\<not> dict_contains (scopes example_world 0) GHIDRA_BRIDGE_NAMESPACE_TRACK"
    by (simp add: example_world_def dict_contains_def GHIDRA_BRIDGE_NAMESPACE_TRACK_def)
  have a: "Some (0::nat) = Some 0 \<or> (Some (0::nat) = None \<and> namespace example_session = Some 0)"
    by simp
  from unload_flat_api_not_projected [OF a c] c show ?thesis by simp
qed

subsection \<open>C6\<close>

text \<open>
  Claim C6 as stated fails in its last part: from \<^verbatim>\<open>{"x": 1}\<close>, after two loads of the same
  remote side and one unload, the namespace is not \<^verbatim>\<open>{"x": 1}\<close> again; the tracking key and
  its record are still there.
\<close>

theorem get_flat_api_twice_unload_reverses_counterexample:
  "scopes example_world 0 = [(''x'', PInt 1)] \<and>
   fst (unload_flat_api (Some 0) (fst (snd example_reloaded)) (snd (snd example_reloaded))) =
     Inr () \<and>
   scopes (snd (unload_flat_api (Some 0) (fst (snd example_reloaded))
         (snd (snd example_reloaded)))) 0 =
     [(''x'', PInt 1),
      (GHIDRA_BRIDGE_NAMESPACE_TRACK, PDict [(''foo'', PInt 10), (''bar'', PInt 20)])] \<and>
   scopes (snd (unload_flat_api (Some 0) (fst (snd example_reloaded))
         (snd (snd example_reloaded)))) 0 \<noteq> scopes example_world 0"
  by (simp add: example_defs)

text \<open>
  Claim C6, as the code has it. After two loads in a row the namespace has one tracking
  key, which holds the record of the second load only. One unload then removes every name
  the second load projected whose value is equal to itself under \<^verbatim>\<open>==\<close> (a name bound to
  a \<^verbatim>\<open>nan\<close> stays bound to it); the tracking key keeps its record, and every other name is
  as the second load found it, so a name that only the first load projected stays bound.
\<close>

theorem get_flat_api_twice_then_unload:
  assumes "get_flat_api rm1 (Some a) self w = (r1, self1, w1)"
    and "get_flat_api rm2 (Some a) self1 w1 = (r2, self2, w2)"
    and "unload_flat_api (Some a) self2 w2 = (r3, w3)"
  shows "(distinct (map fst (scopes w a)) \<longrightarrow>
            length (filter (\<lambda>kv. fst kv = GHIDRA_BRIDGE_NAMESPACE_TRACK) (scopes w2 a)) = 1) \<and>
         dict_get (scopes w2 a) GHIDRA_BRIDGE_NAMESPACE_TRACK = Some (PDict (projection_record rm2)) \<and>
         r3 = Inr () \<and>
         (\<forall>n \<in> set (projected_names rm2).
            dict_get (scopes w3 a) n =
              (if py_eq (getattr rm2 n) (getattr rm2 n) then None else Some (getattr rm2 n))) \<and>
         dict_get (scopes w3 a) GHIDRA_BRIDGE_NAMESPACE_TRACK = Some (PDict (projection_record rm2)) \<and>
         (\<forall>k. k \<notin> set (projected_names rm2) \<and> k \<noteq> GHIDRA_BRIDGE_NAMESPACE_TRACK \<longrightarrow>
            dict_get (scopes w3 a) k = dict_get (scopes w1 a) k)"
proof -
  note s1 = get_flat_api_scope [OF assms(1)]
  note s2 = get_flat_api_scope [OF assms(2)]
  from s1 s2 have d: "distinct (map fst (scopes w a)) \<longrightarrow> distinct (map fst (scopes w2 a))"
    by simp
  from s2 have t: "dict_get (scopes w2 a) GHIDRA_BRIDGE_NAMESPACE_TRACK = Some (PDict (projection_record rm2))"
    by simp
  then have "dict_contains (scopes w2 a) GHIDRA_BRIDGE_NAMESPACE_TRACK"
    by (simp add: dict_contains_get)
  then have "GHIDRA_BRIDGE_NAMESPACE_TRACK \<in> fst ` set (scopes w2 a)"
    by (simp add: dict_contains_def)
  with d have c: "distinct (map fst (scopes w a)) \<longrightarrow>
      length (filter (\<lambda>kv. fst kv = GHIDRA_BRIDGE_NAMESPACE_TRACK) (scopes w2 a)) = 1"
    by (simp add: count_key_distinct)
  from load_unload_scope [OF assms(2,3)] have
    r: "r3 = Inr ()" and n: "\<forall>n \<in> set (projected_names rm2).
            dict_get (scopes w3 a) n =
              (if py_eq (getattr rm2 n) (getattr rm2 n) then None else Some (getattr rm2 n))"
    by simp_all
  note u = unload_flat_api_after_record [OF t assms(3)]
  from u t have k: "dict_get (scopes w3 a) GHIDRA_BRIDGE_NAMESPACE_TRACK = Some (PDict (projection_record rm2))"
    using projected_not_track [of rm2] by simp
  have "\<forall>k. k \<notin> set (projected_names rm2) \<and> k \<noteq> GHIDRA_BRIDGE_NAMESPACE_TRACK \<longrightarrow>
            dict_get (scopes w3 a) k = dict_get (scopes w1 a) k"
    using u s2 by simp
  with c t r n k show ?thesis by blast
qed

text \<open>The theorem at the concrete run.\<close>

theorem get_flat_api_twice_then_unload_witness:
  "distinct (map fst (scopes example_world 0)) \<and>
   py_eq (getattr example_remote_later ''bar'') (getattr example_remote_later ''bar'') \<and>
   length (filter (\<lambda>kv. fst kv = GHIDRA_BRIDGE_NAMESPACE_TRACK)
             (scopes (snd (snd example_reloaded_later)) 0)) = 1 \<and>
   dict_get (scopes (snd (snd example_reloaded_later)) 0) GHIDRA_BRIDGE_NAMESPACE_TRACK =
     Some (PDict [(''bar'', PInt 20)]) \<and>
   fst (unload_flat_api (Some 0) (fst (snd example_reloaded_later))
         (snd (snd example_reloaded_later))) = Inr () \<and>
   scopes (snd (unload_flat_api (Some 0) (fst (snd example_reloaded_later))
         (snd (snd example_reloaded_later)))) 0 =
     [(''x'', PInt 1), (GHIDRA_BRIDGE_NAMESPACE_TRACK, PDict [(''bar'', PInt 20)]),
      (''foo'', PInt 10)]"
proof -
  let ?U = "unload_flat_api (Some 0) (fst (snd example_reloaded_later))
         (snd (snd example_reloaded_later))"
  have h1: "get_flat_api example_remote (Some 0) example_session example_world =
             (fst example_loaded, fst (snd example_loaded), snd (snd example_loaded))"
    by (simp add: example_loaded_def)
  have h2: "get_flat_api example_remote_later (Some 0) (fst (snd example_loaded))
              (snd (snd example_loaded)) =
             (fst example_reloaded_later, fst (snd example_reloaded_later),
              snd (snd example_reloaded_later))"
    by (simp add: example_reloaded_later_def)
  have d: "distinct (map fst (scopes example_world 0))"
    by (simp add: example_world_def)
  have n: "projected_names example_remote_later = [''bar'']"
    by (simp add: example_defs)
  have v: "py_eq (getattr example_remote_later ''bar'') (getattr example_remote_later ''bar'')"
    by (simp add: example_remote_later_def)
  have u: "?U = (fst ?U, snd ?U)" by simp
  note r = get_flat_api_twice_then_unload [OF h1 h2 u]
  from r d have a: "length (filter (\<lambda>kv. fst kv = GHIDRA_BRIDGE_NAMESPACE_TRACK)
             (scopes (snd (snd example_reloaded_later)) 0)) = 1"
    by blast
  from r have b: "fst ?U = Inr ()" by blast
  have c: "dict_get (scopes (snd (snd example_reloaded_later)) 0) GHIDRA_BRIDGE_NAMESPACE_TRACK =
     Some (PDict [(''bar'', PInt 20)])"
    by (simp add: example_defs)
  have e: "scopes (snd ?U) 0 =
     [(''x'', PInt 1), (GHIDRA_BRIDGE_NAMESPACE_TRACK, PDict [(''bar'', PInt 20)]),
      (''foo'', PInt 10)]"
    by (simp add: example_defs)
  from d v a b c e show ?thesis by simp
qed

subsection \<open>C7\<close>

text \<open>
  Claim C7. Two calls of \<^verbatim>\<open>get_flat_api\<close> in interactive mode, on a session without a
  listener, create one listener and make one \<^verbatim>\<open>addToolListener\<close> call. The tool then holds
  that listener. Of two calls of the listener's \<^verbatim>\<open>__del__\<close>, both return, the first finds
  the listener registered, the second does not and leaves the tool's listeners as they are:
  at most one unregistration is effective. The part on the teardown rests on the remote
  tool as the spec has it.
\<close>

theorem get_flat_api_twice_registers_once:
  assumes "interactive_mode self"
    and "interactive_listener self = None"
    and "get_flat_api rm1 ns1 self w = (r1, self1, w1)"
    and "get_flat_api rm2 ns2 self1 w1 = (r2, self2, w2)"
  shows "\<exists>l. interactive_listener self1 = Some l \<and> interactive_listener self2 = Some l \<and>
             tool l = state_getTool rm1 \<and>
             tool_calls w2 = tool_calls w @ [AddToolListener (tool l) (ident l)] \<and>
             registered l w2 \<and>
             fst (InteractiveListener_del l w2) = Inr () \<and>
             \<not> registered l (snd (InteractiveListener_del l w2)) \<and>
             fst (InteractiveListener_del l (snd (InteractiveListener_del l w2))) = Inr () \<and>
             tool_listeners (snd (InteractiveListener_del l (snd (InteractiveListener_del l w2)))) =
               tool_listeners (snd (InteractiveListener_del l w2))"
proof -
  note a = get_flat_api_session [OF assms(3)]
  note b = get_flat_api_session [OF assms(4)]
  let ?l = "\<lparr>ident = next_ident w, tool = state_getTool rm1, update_list = []\<rparr>"
  from a assms(1,2) have l1: "interactive_listener self1 = Some ?l"
    and c1: "tool_calls w1 = tool_calls w @ [AddToolListener (state_getTool rm1) (next_ident w)]"
    and t1: "tool_listeners w1 = List.insert (state_getTool rm1, next_ident w) (tool_listeners w)"
    by simp_all
  from b l1 have l2: "interactive_listener self2 = Some ?l" and c2: "tool_calls w2 = tool_calls w1"
    and t2: "tool_listeners w2 = tool_listeners w1"
    by simp_all
  from t1 t2 have g: "registered ?l w2" by (simp add: registered_def)
  have d1: "fst (InteractiveListener_del ?l w2) = Inr ()"
    by (simp add: InteractiveListener_del_def removeToolListener_def)
  have n: "\<not> registered ?l (snd (InteractiveListener_del ?l w2))"
    by (simp add: InteractiveListener_del_def removeToolListener_def registered_def)
  have d2: "fst (InteractiveListener_del ?l (snd (InteractiveListener_del ?l w2))) = Inr ()"
    by (simp add: InteractiveListener_del_def removeToolListener_def)
  have e: "tool_listeners (snd (InteractiveListener_del ?l (snd (InteractiveListener_del ?l w2)))) =
             tool_listeners (snd (InteractiveListener_del ?l w2))"
    by (simp add: InteractiveListener_del_def removeToolListener_def)
  from l1 l2 c1 c2 g d1 n d2 e show ?thesis by (intro exI [of _ ?l]) simp
qed

text \<open>The theorem at the concrete run.\<close>

theorem get_flat_api_twice_registers_once_witness:
  "interactive_mode example_session \<and>
   interactive_listener example_session = None \<and>
   interactive_listener (fst (snd example_loaded)) = Some example_listener \<and>
   interactive_listener (fst (snd example_reloaded)) = Some example_listener \<and>
   tool_calls (snd (snd example_reloaded)) = [AddToolListener 7 0] \<and>
   registered example_listener (snd (snd example_reloaded)) \<and>
   \<not> registered example_listener
       (snd (InteractiveListener_del example_listener (snd (snd example_reloaded)))) \<and>
   fst (InteractiveListener_del example_listener
         (snd (InteractiveListener_del example_listener (snd (snd example_reloaded))))) = Inr () \<and>
   tool_calls (snd (InteractiveListener_del example_listener
         (snd (InteractiveListener_del example_listener (snd (snd example_reloaded)))))) =
     [AddToolListener 7 0, RemoveToolListener 7 0, RemoveToolListener 7 0]"
proof -
  have i: "interactive_mode example_session"
    and l: "interactive_listener example_session = None"
    by (simp_all add: example_session_def)
  have h1: "get_flat_api example_remote (Some 0) example_session example_world =
             (fst example_loaded, fst (snd example_loaded), snd (snd example_loaded))"
    by (simp add: example_loaded_def)
  have h2: "get_flat_api example_remote (Some 0) (fst (snd example_loaded))
              (snd (snd example_loaded)) =
             (fst example_reloaded, fst (snd example_reloaded), snd (snd example_reloaded))"
    by (simp add: example_reloaded_def)
  have c: "tool_calls example_world = []" "state_getTool example_remote = 7"
    by (simp_all add: example_world_def example_remote_def)
  have e: "interactive_listener (fst (snd example_loaded)) = Some example_listener"
    by (simp add: example_defs)
  have t: "tool_calls (snd (InteractiveListener_del example_listener
         (snd (InteractiveListener_del example_listener (snd (snd example_reloaded)))))) =
     [AddToolListener 7 0, RemoveToolListener 7 0, RemoveToolListener 7 0]"
    by (simp add: example_defs)
  from get_flat_api_twice_registers_once [OF i l h1 h2] obtain l' where
    l1: "interactive_listener (fst (snd example_loaded)) = Some l'" and
    l2: "interactive_listener (fst (snd example_reloaded)) = Some l'" and
    c2: "tool_calls (snd (snd example_reloaded)) =
           tool_calls example_world @ [AddToolListener (tool l') (ident l')]" and
    g: "registered l' (snd (snd example_reloaded))" and
    n: "\<not> registered l' (snd (InteractiveListener_del l' (snd (snd example_reloaded))))" and
    d: "fst (InteractiveListener_del l'
             (snd (InteractiveListener_del l' (snd (snd example_reloaded))))) = Inr ()"
    by blast
  from l1 e have "l' = example_listener" by simp
  with l2 c2 g n d i l e c t show ?thesis by (simp add: example_listener_def)
qed

subsection \<open>C8\<close>

text \<open>
  Claim C8 as stated fails without a namespace: constructed with the interactive flag set
  and no namespace, the session has no listener and no call was made on the remote tool.
\<close>

theorem GhidraBridge_init_listener_counterexample:
  "GhidraBridge_init (Some ''127.0.0.1'') (Some 4768) None None True example_remote example_world =
     (Inr example_session, example_world) \<and>
   interactive_mode example_session \<and>
   interactive_listener example_session = None \<and>
   tool_calls example_world = []"
  by (simp add: example_defs)

text \<open>
  Claim C8, as the code has it. Construction always builds the transport handle. Without a
  namespace it does nothing more: no listener, no call on the remote tool, and the world is
  as before, whatever the interactive flag. With a namespace and no host or no port it
  raises. With a namespace, a host and a port it is one \<^verbatim>\<open>get_flat_api\<close> on that
  namespace, which creates and registers the listener when the interactive flag is set.
\<close>

theorem GhidraBridge_init_cases:
  "(namespace_arg = None \<longrightarrow>
      GhidraBridge_init host port lvl namespace_arg interactive rm w =
        (Inr \<lparr>bridge = \<lparr>connect_to_host = host, connect_to_port = port, loglevel = lvl\<rparr>,
              interactive_mode = interactive, interactive_listener = None, namespace = None\<rparr>, w)) \<and>
   (namespace_arg = Some a \<and> (host = None \<or> port = None) \<longrightarrow>
      GhidraBridge_init host port lvl namespace_arg interactive rm w = (Inl NoServerError, w)) \<and>
   (namespace_arg = Some a \<and> host \<noteq> None \<and> port \<noteq> None \<longrightarrow>
      (\<exists>self' w'.
         get_flat_api rm (Some a)
           \<lparr>bridge = \<lparr>connect_to_host = host, connect_to_port = port, loglevel = lvl\<rparr>,
            interactive_mode = interactive, interactive_listener = None, namespace = Some a\<rparr> w =
           (Inr rm, self', w') \<and>
         GhidraBridge_init host port lvl namespace_arg interactive rm w = (Inr self', w') \<and>
         bridge self' = \<lparr>connect_to_host = host, connect_to_port = port, loglevel = lvl\<rparr> \<and>
         namespace self' = Some a \<and>
         (interactive \<longrightarrow>
            (\<exists>l. interactive_listener self' = Some l \<and>
                 tool_calls w' = tool_calls w @ [AddToolListener (state_getTool rm) (ident l)])) \<and>
         (\<not> interactive \<longrightarrow> interactive_listener self' = None \<and> tool_calls w' = tool_calls w)))"
proof (intro conjI impI)
  assume "namespace_arg = None"
  then show "GhidraBridge_init host port lvl namespace_arg interactive rm w =
        (Inr \<lparr>bridge = \<lparr>connect_to_host = host, connect_to_port = port, loglevel = lvl\<rparr>,
              interactive_mode = interactive, interactive_listener = None, namespace = None\<rparr>, w)"
    by (simp add: GhidraBridge_init_def)
next
  assume "namespace_arg = Some a \<and> (host = None \<or> port = None)"
  then show "GhidraBridge_init host port lvl namespace_arg interactive rm w = (Inl NoServerError, w)"
    by (auto simp: GhidraBridge_init_def)
next
  assume h: "namespace_arg = Some a \<and> host \<noteq> None \<and> port \<noteq> None"
  let ?self1 = "\<lparr>bridge = \<lparr>connect_to_host = host, connect_to_port = port, loglevel = lvl\<rparr>,
            interactive_mode = interactive, interactive_listener = None, namespace = Some a\<rparr>"
  obtain r self' w' where g: "get_flat_api rm (Some a) ?self1 w = (r, self', w')"
    by (cases "get_flat_api rm (Some a) ?self1 w") auto
  from get_flat_api_scope [OF g] have r: "r = Inr rm" by simp
  note s = get_flat_api_session [OF g]
  have i: "GhidraBridge_init host port lvl namespace_arg interactive rm w = (Inr self', w')"
    using h g r by (simp add: GhidraBridge_init_def)
  show "\<exists>self' w'.
         get_flat_api rm (Some a) ?self1 w = (Inr rm, self', w') \<and>
         GhidraBridge_init host port lvl namespace_arg interactive rm w = (Inr self', w') \<and>
         bridge self' = \<lparr>connect_to_host = host, connect_to_port = port, loglevel = lvl\<rparr> \<and>
         namespace self' = Some a \<and>
         (interactive \<longrightarrow>
            (\<exists>l. interactive_listener self' = Some l \<and>
                 tool_calls w' = tool_calls w @ [AddToolListener (state_getTool rm) (ident l)])) \<and>
         (\<not> interactive \<longrightarrow> interactive_listener self' = None \<and> tool_calls w' = tool_calls w)"
    using g r i s by (intro exI [of _ self'] exI [of _ w']) auto
qed

text \<open>The theorem at the concrete run.\<close>

theorem GhidraBridge_init_cases_witness:
  "example_constructed = (Inr example_constructed_session, snd (snd example_loaded)) \<and>
   tool_calls (snd example_constructed) = [AddToolListener 7 0] \<and>
   GhidraBridge_init (Some ''127.0.0.1'') (Some 4768) None None True example_remote example_world =
     (Inr example_session, example_world) \<and>
   GhidraBridge_init None (Some 4768) None (Some 0) True example_remote example_world =
     (Inl NoServerError, example_world)"
proof -
  have d: "example_constructed = (Inr example_constructed_session, snd (snd example_loaded))"
    by (simp add: example_defs)
  have "\<exists>self' w'.
          GhidraBridge_init (Some ''127.0.0.1'') (Some 4768) None (Some 0) True
            example_remote example_world = (Inr self', w') \<and>
          (\<exists>l. interactive_listener self' = Some l \<and>
               tool_calls w' =
                 tool_calls example_world @ [AddToolListener (state_getTool example_remote) (ident l)])"
    using GhidraBridge_init_cases
      [of "Some 0" "Some ''127.0.0.1''" "Some 4768" None True example_remote example_world 0]
    by auto
  then obtain self' w' l where
    i: "example_constructed = (Inr self', w')" and
    l: "interactive_listener self' = Some l" and
    t: "tool_calls w' =
          tool_calls example_world @ [AddToolListener (state_getTool example_remote) (ident l)]"
    unfolding example_constructed_def by blast
  from i d have "self' = example_constructed_session"
    by (metis Pair_inject sum.inject(2))
  with l have "l = example_listener" by (simp add: example_constructed_session_def)
  moreover from i have "snd example_constructed = w'" by (metis snd_conv)
  ultimately have a: "tool_calls (snd example_constructed) = [AddToolListener 7 0]"
    using t by (simp add: example_listener_def example_world_def example_remote_def)
  from GhidraBridge_init_cases
    [of None "Some ''127.0.0.1''" "Some 4768" None True example_remote example_world 0]
  have b: "GhidraBridge_init (Some ''127.0.0.1'') (Some 4768) None None True example_remote
             example_world = (Inr example_session, example_world)"
    by (simp add: example_session_def)
  from GhidraBridge_init_cases
    [of "Some 0" None "Some 4768" None True example_remote example_world 0]
  have c: "GhidraBridge_init None (Some 4768) None (Some 0) True example_remote example_world =
     (Inl NoServerError, example_world)"
    by simp
  from a b c d show ?thesis by simp
qed

subsection \<open>C9\<close>

text \<open>
  Claim C9. For a session constructed with a namespace, \<^verbatim>\<open>__exit__\<close> is, in every world,
  one \<^verbatim>\<open>unload_flat_api\<close> on that namespace: the same outcome and the same world after it.
  After a manual unload of that namespace that returned, \<^verbatim>\<open>__exit__\<close> returns too: no
  exception, the one of line 114 included.
\<close>

theorem GhidraBridge_exit_after_manual_unload:
  assumes "GhidraBridge_init host port lvl (Some a) interactive rm w0 = (Inr self, w1)"
  shows "GhidraBridge_exit self w2 = unload_flat_api (Some a) self w2 \<and>
         ((namespace_arg = None \<or> namespace_arg = Some a) \<and>
          unload_flat_api namespace_arg self w = (Inr (), w') \<longrightarrow>
            fst (GhidraBridge_exit self w') = Inr ())"
proof (intro conjI impI)
  note n = GhidraBridge_init_namespace [OF assms]
  then show e: "GhidraBridge_exit self w2 = unload_flat_api (Some a) self w2" for w2
    by (simp add: GhidraBridge_exit_def)
  assume m: "(namespace_arg = None \<or> namespace_arg = Some a) \<and>
          unload_flat_api namespace_arg self w = (Inr (), w')"
  from n have "unload_flat_api None self w = unload_flat_api (Some a) self w"
    by (simp add: unload_flat_api_def)
  with m have "unload_flat_api (Some a) self w = (Inr (), w')" by auto
  from unload_flat_api_returned [OF this] obtain t where
    "dict_get (scopes w' a) GHIDRA_BRIDGE_NAMESPACE_TRACK = Some (PDict t)" by blast
  then have "fst (unload_flat_api (Some a) self w') = Inr ()"
    by (simp add: unload_flat_api_scope)
  with e show "fst (GhidraBridge_exit self w') = Inr ()" by simp
qed

text \<open>
  The theorem at the concrete run: \<^verbatim>\<open>__exit__\<close> right after the construction unloads, and
  \<^verbatim>\<open>__exit__\<close> after a manual unload returns.
\<close>

theorem GhidraBridge_exit_after_manual_unload_witness:
  "example_constructed = (Inr example_constructed_session, snd example_constructed) \<and>
   GhidraBridge_exit example_constructed_session (snd example_constructed) =
     unload_flat_api (Some 0) example_constructed_session (snd example_constructed) \<and>
   scopes (snd (GhidraBridge_exit example_constructed_session (snd example_constructed))) 0 =
     [(''x'', PInt 1),
      (GHIDRA_BRIDGE_NAMESPACE_TRACK, PDict [(''foo'', PInt 10), (''bar'', PInt 20)])] \<and>
   fst (unload_flat_api None example_constructed_session (snd example_constructed)) = Inr () \<and>
   fst (GhidraBridge_exit example_constructed_session
         (snd (unload_flat_api None example_constructed_session (snd example_constructed)))) =
     Inr ()"
proof -
  let ?U = "unload_flat_api None example_constructed_session (snd example_constructed)"
  have c: "example_constructed = (Inr example_constructed_session, snd example_constructed)"
    by (simp add: example_defs)
  then have h: "GhidraBridge_init (Some ''127.0.0.1'') (Some 4768) None (Some 0) True
             example_remote example_world =
           (Inr example_constructed_session, snd example_constructed)"
    by (simp add: example_constructed_def)
  have f: "fst ?U = Inr ()"
    by (simp add: example_defs)
  then have u: "?U = (Inr (), snd ?U)" by (simp add: prod_eq_iff)
  note r = GhidraBridge_exit_after_manual_unload
    [OF h, of "snd example_constructed" None "snd example_constructed" "snd ?U"]
  from r have e: "GhidraBridge_exit example_constructed_session (snd example_constructed) =
     unload_flat_api (Some 0) example_constructed_session (snd example_constructed)"
    by (rule conjunct1)
  from r u have x: "fst (GhidraBridge_exit example_constructed_session (snd ?U)) = Inr ()"
    by blast
  have s: "scopes (snd (unload_flat_api (Some 0) example_constructed_session
             (snd example_constructed))) 0 =
     [(''x'', PInt 1),
      (GHIDRA_BRIDGE_NAMESPACE_TRACK, PDict [(''foo'', PInt 10), (''bar'', PInt 20)])]"
    by (simp add: example_defs)
  from c e s f x show ?thesis by simp
qed

subsection \<open>C10\<close>

text \<open>
  Claim C10. A name that is neither projected nor the tracking key has the same binding
  (or none) after \<^verbatim>\<open>get_flat_api\<close> as before it, and no other dictionary is touched.
\<close>

theorem get_flat_api_frame:
  assumes "get_flat_api rm (Some a) self w = (r, self', w')"
    and "k \<notin> set (projected_names rm)"
    and "k \<noteq> GHIDRA_BRIDGE_NAMESPACE_TRACK"
  shows "dict_get (scopes w' a) k = dict_get (scopes w a) k \<and>
         (\<forall>b. b \<noteq> a \<longrightarrow> scopes w' b = scopes w b)"
  using get_flat_api_scope [OF assms(1)] assms(2,3) by simp

text \<open>The theorem at the concrete run.\<close>

theorem get_flat_api_frame_witness:
  "''x'' \<notin> set (projected_names example_remote) \<and>
   ''x'' \<noteq> GHIDRA_BRIDGE_NAMESPACE_TRACK \<and>
   dict_get (scopes (snd (snd example_loaded)) 0) ''x'' = Some (PInt 1)"
proof -
  have h: "get_flat_api example_remote (Some 0) example_session example_world =
             (fst example_loaded, fst (snd example_loaded), snd (snd example_loaded))"
    by (simp add: example_loaded_def)
  have n: "''x'' \<notin> set (projected_names example_remote)"
    by (simp add: example_defs)
  have t: "''x'' \<noteq> GHIDRA_BRIDGE_NAMESPACE_TRACK"
    by (simp add: GHIDRA_BRIDGE_NAMESPACE_TRACK_def)
  have x: "dict_get (scopes example_world 0) ''x'' = Some (PInt 1)"
    by (simp add: example_world_def dict_get_def)
  from get_flat_api_frame [OF h n t]
  have "dict_get (scopes (snd (snd example_loaded)) 0) ''x'' = dict_get (scopes example_world 0) ''x''"
    by (rule conjunct1)
  with n t x show ?thesis by simp
qed

end
